theory Spec2Isabelle
  imports Main
begin

section \<open>JavaScript values and errors\<close>

text \<open>
  The values that reach the program are parsed JSON (response bodies, the cache
  document) or \<^verbatim>\<open>undefined\<close>. A JSON value is a \<open>json\<close>; a JavaScript value
  is a \<open>json option\<close>, with \<open>None\<close> for \<^verbatim>\<open>undefined\<close>. An object is the list of
  its own properties, one entry per key. Numbers are the integer-valued ones
  (the program only writes the literal 1800 and tests numbers for truthiness).
\<close>

datatype json =
    JNull
  | JBool bool
  | JNum int
  | JStr string
  | JArr "json list"
  | JObj "(string \<times> json) list"

type_synonym jsval = "json option"

text \<open>
  \<open>Error m\<close> is \<^verbatim>\<open>new Error(m)\<close>, thrown by the program itself. \<open>TypeError p\<close>
  is the engine's TypeError on reading or calling property \<open>p\<close> (the engine's
  message text is not modelled). \<open>LibError m\<close> is a rejection or exception of a
  library call (axios, fs, JSON.parse) with message \<open>m\<close>.
\<close>

datatype js_error =
    Error string
  | TypeError string
  | LibError string

fun message :: "js_error \<Rightarrow> string" where
  "message (Error m) = m"
| "message (TypeError p) = p"
| "message (LibError m) = m"

definition bind_err :: "js_error + 'a \<Rightarrow> ('a \<Rightarrow> js_error + 'b) \<Rightarrow> js_error + 'b" where
  "bind_err r f = (case r of Inl e \<Rightarrow> Inl e | Inr x \<Rightarrow> f x)"

text \<open>Truthiness, as \<^verbatim>\<open>!x\<close> and \<^verbatim>\<open>x || y\<close> test it.\<close>

fun truthy :: "jsval \<Rightarrow> bool" where
  "truthy None = False"
| "truthy (Some JNull) = False"
| "truthy (Some (JBool b)) = b"
| "truthy (Some (JNum n)) = (n \<noteq> 0)"
| "truthy (Some (JStr s)) = (s \<noteq> [])"
| "truthy (Some (JArr xs)) = True"
| "truthy (Some (JObj kvs)) = True"

text \<open>
  \<^verbatim>\<open>x.k\<close> for the property names the program reads (\<^verbatim>\<open>success\<close>,
  \<^verbatim>\<open>result\<close>, \<^verbatim>\<open>id\<close>): a TypeError on \<^verbatim>\<open>undefined\<close> and \<^verbatim>\<open>null\<close>,
  the own property of an object, \<^verbatim>\<open>undefined\<close> on anything else.
\<close>

fun get_prop :: "jsval \<Rightarrow> string \<Rightarrow> js_error + jsval" where
  "get_prop None k = Inl (TypeError k)"
| "get_prop (Some JNull) k = Inl (TypeError k)"
| "get_prop (Some (JObj kvs)) k = Inr (map_of kvs k)"
| "get_prop (Some v) k = Inr None"

text \<open>\<^verbatim>\<open>x[0]\<close>: the first element of an array, the first character of a string.\<close>

fun get_index0 :: "jsval \<Rightarrow> js_error + jsval" where
  "get_index0 None = Inl (TypeError ''0'')"
| "get_index0 (Some JNull) = Inl (TypeError ''0'')"
| "get_index0 (Some (JArr xs)) = Inr (case xs of [] \<Rightarrow> None | x # rest \<Rightarrow> Some x)"
| "get_index0 (Some (JStr s)) = Inr (case s of [] \<Rightarrow> None | c # rest \<Rightarrow> Some (JStr [c]))"
| "get_index0 (Some (JObj kvs)) = Inr (map_of kvs ''0'')"
| "get_index0 (Some v) = Inr None"

text \<open>\<^verbatim>\<open>x?.k\<close>: \<^verbatim>\<open>undefined\<close> when \<open>x\<close> is \<^verbatim>\<open>undefined\<close> or \<^verbatim>\<open>null\<close>.\<close>

fun get_prop_opt :: "jsval \<Rightarrow> string \<Rightarrow> js_error + jsval" where
  "get_prop_opt None k = Inr None"
| "get_prop_opt (Some JNull) k = Inr None"
| "get_prop_opt v k = get_prop v k"

text \<open>
  \<^verbatim>\<open>String.prototype.trim\<close> on strings of 8-bit code units: tab, line feed,
  vertical tab, form feed, carriage return, space and no-break space are removed
  from both ends.
\<close>

definition js_whitespace :: "char \<Rightarrow> bool" where
  "js_whitespace c =
     (c = CHR 0x09 \<or> c = CHR 0x0A \<or> c = CHR 0x0B \<or> c = CHR 0x0C \<or> c = CHR 0x0D
      \<or> c = CHR 0x20 \<or> c = CHR 0xA0)"

definition trim :: "string \<Rightarrow> string" where
  "trim s = rev (dropWhile js_whitespace (rev (dropWhile js_whitespace s)))"

text \<open>
  \<^verbatim>\<open>d.trim()\<close> on a response body \<open>d\<close>: only a string has a callable
  \<^verbatim>\<open>trim\<close>; \<^verbatim>\<open>undefined\<close>, \<^verbatim>\<open>null\<close> and every other JSON value raise a
  TypeError.
\<close>

fun call_trim :: "jsval \<Rightarrow> js_error + string" where
  "call_trim (Some (JStr s)) = Inr (trim s)"
| "call_trim v = Inl (TypeError ''trim'')"

section \<open>The world outside the process\<close>

datatype level = Info | Http | Err

type_synonym log_entry = "level \<times> string"

text \<open>
  Outbound calls: \<open>AxiosGet url\<close> is \<^verbatim>\<open>axios.get(url)\<close> on the global client;
  \<open>ApiGet path params\<close> and \<open>ApiPut path body\<close> go through the client made by
  \<^verbatim>\<open>axios.create\<close> for the provider's base URL.
\<close>

datatype http_call =
    AxiosGet string
  | ApiGet string "(string \<times> string) list"
  | ApiPut string json

record response =
  data :: jsval

text \<open>
  The network answers a call from the calls made before it and the call itself:
  \<open>Inl e\<close> is a rejected promise (axios rejects on a network error and on a
  status outside 2xx), \<open>Inr r\<close> a response.
\<close>

type_synonym network = "http_call list \<Rightarrow> http_call \<Rightarrow> js_error + response"

record world =
  files :: "string \<rightharpoonup> string"
  logged :: "log_entry list"
  calls :: "http_call list"

definition logger :: "level \<Rightarrow> string \<Rightarrow> world \<Rightarrow> world" where
  "logger l m w = w\<lparr>logged := logged w @ [(l, m)]\<rparr>"

definition request :: "network \<Rightarrow> http_call \<Rightarrow> world \<Rightarrow> (js_error + response) \<times> world" where
  "request net c w = (net (calls w) c, w\<lparr>calls := calls w @ [c]\<rparr>)"

section \<open>CloudflareAPI\<close>

record CloudflareAPI =
  apiKey :: string
  email :: string
  domainName :: string

definition primary_service :: string where
  "primary_service = ''https://ipv4.icanhazip.com''"

definition secondary_service :: string where
  "secondary_service = ''https://api.ipify.org''"

text \<open>
  \<^verbatim>\<open>getPublicIP\<close>: the guarded block holds the first \<^verbatim>\<open>axios.get\<close>
  only; its handler makes the second call; \<^verbatim>\<open>response.data.trim()\<close> comes
  after both, unguarded.
\<close>

definition getPublicIP :: "network \<Rightarrow> world \<Rightarrow> (js_error + string) \<times> world" where
  "getPublicIP net w =
     (let w1 = logger Http ''GET: Fetching public IP address...'' w;
          (r1, w2) = request net (AxiosGet primary_service) w1;
          (r, w3) = (case r1 of
                       Inr resp \<Rightarrow> (Inr resp, w2)
                     | Inl e \<Rightarrow> request net (AxiosGet secondary_service) w2)
      in (bind_err r (\<lambda>resp. call_trim (data resp)), w3))"

text \<open>What \<^verbatim>\<open>getZoneId\<close> does with the body once the call has returned.\<close>

definition zone_id_of :: "jsval \<Rightarrow> js_error + jsval" where
  "zone_id_of d =
     bind_err (get_prop d ''success'') (\<lambda>success.
       if \<not> truthy success then Inl (Error ''Failed to fetch Zone ID'')
       else bind_err (get_prop d ''result'') (\<lambda>result.
            bind_err (get_index0 result) (\<lambda>zone. get_prop zone ''id'')))"

definition getZoneId :: "CloudflareAPI \<Rightarrow> network \<Rightarrow> world \<Rightarrow> (js_error + jsval) \<times> world" where
  "getZoneId api net w =
     (let w1 = logger Http ''GET: Fetching Zone ID...'' w;
          (r, w2) = request net (ApiGet ''/zones'' [(''name'', domainName api)]) w1
      in (bind_err r (\<lambda>resp. zone_id_of (data resp)), w2))"

text \<open>\<^verbatim>\<open>response.data.result[0]?.id || null\<close> after the success test.\<close>

definition record_id_of :: "jsval \<Rightarrow> js_error + jsval" where
  "record_id_of d =
     bind_err (get_prop d ''success'') (\<lambda>success.
       if \<not> truthy success then Inl (Error ''Failed to fetch Record ID'')
       else bind_err (get_prop d ''result'') (\<lambda>result.
            bind_err (get_index0 result) (\<lambda>first.
            bind_err (get_prop_opt first ''id'') (\<lambda>i.
              Inr (if truthy i then i else Some JNull)))))"

definition getRecordId ::
  "CloudflareAPI \<Rightarrow> string \<Rightarrow> string \<Rightarrow> network \<Rightarrow> world \<Rightarrow> (js_error + jsval) \<times> world" where
  "getRecordId api zoneId subdomain net w =
     (let w1 = logger Http ''GET: Fetching Record ID...'' w;
          (r, w2) = request net
                      (ApiGet (''/zones/'' @ zoneId @ ''/dns_records'')
                         [(''type'', ''A''), (''name'', subdomain @ ''.'' @ domainName api)]) w1
      in (bind_err r (\<lambda>resp. record_id_of (data resp)), w2))"

definition updateDNSRecord ::
  "CloudflareAPI \<Rightarrow> string \<Rightarrow> string \<Rightarrow> string \<Rightarrow> string \<Rightarrow> network \<Rightarrow> world
     \<Rightarrow> (js_error + jsval) \<times> world" where
  "updateDNSRecord api zoneId recordId subdomain publicIP net w =
     (let w1 = logger Http (''PUT: Updating DNS record for '' @ subdomain @ '' to IP: '' @ publicIP) w;
          (r, w2) = request net
                      (ApiPut (''/zones/'' @ zoneId @ ''/dns_records/'' @ recordId)
                         (JObj [(''type'', JStr ''A''),
                                (''name'', JStr (subdomain @ ''.'' @ domainName api)),
                                (''content'', JStr publicIP),
                                (''ttl'', JNum 1800),
                                (''proxied'', JBool False)])) w1
      in case r of
           Inl e \<Rightarrow> (Inl e, w2)
         | Inr resp \<Rightarrow>
             (case get_prop (data resp) ''success'' of
                Inl e \<Rightarrow> (Inl e, w2)
              | Inr success \<Rightarrow>
                  if \<not> truthy success then (Inl (Error ''Failed to update DNS record''), w2)
                  else (Inr (data resp), logger Http ''DNS record updated successfully.'' w2)))"

section \<open>ConfigManager\<close>

text \<open>
  The cache document is a flat mapping from the names of its own data properties
  to their values (\<open>Some None\<close> is a property that holds \<^verbatim>\<open>undefined\<close>). The
  object spread \<^verbatim>\<open>{ ...a, ...b }\<close> copies own properties only and is \<open>a ++ b\<close>; its
  result, like that of \<^verbatim>\<open>JSON.parse\<close>, is an ordinary object whose prototype is
  \<^verbatim>\<open>Object.prototype\<close>. \<^verbatim>\<open>JSON.parse\<close> and
  \<^verbatim>\<open>JSON.stringify(_, null, 2)\<close> are library functions, taken as the
  parameters \<open>parse\<close> and \<open>stringify\<close>. The backing file is taken to hold a
  JSON object, so \<open>parse\<close> yields a document or fails.
\<close>

type_synonym document = "string \<rightharpoonup> jsval"

record ConfigManager =
  configPath :: string
  config :: document

text \<open>
  The file system decides whether a write or a rename fails. A failed write may
  leave anything at its target path (\<open>None\<close>: no file); a failed rename changes
  nothing.
\<close>

record fs_env =
  write_fails :: "(string \<rightharpoonup> string) \<Rightarrow> string \<Rightarrow> string \<Rightarrow> (js_error \<times> string option) option"
  rename_fails :: "(string \<rightharpoonup> string) \<Rightarrow> string \<Rightarrow> string \<Rightarrow> js_error option"

definition existsSync :: "string \<Rightarrow> world \<Rightarrow> bool" where
  "existsSync path w = (files w path \<noteq> None)"

definition readFileSync :: "string \<Rightarrow> world \<Rightarrow> js_error + string" where
  "readFileSync path w =
     (case files w path of None \<Rightarrow> Inl (LibError ''ENOENT'') | Some c \<Rightarrow> Inr c)"

definition writeFile :: "fs_env \<Rightarrow> string \<Rightarrow> string \<Rightarrow> world \<Rightarrow> (js_error + unit) \<times> world" where
  "writeFile env path c w =
     (case write_fails env (files w) path c of
        None \<Rightarrow> (Inr (), w\<lparr>files := (files w)(path \<mapsto> c)\<rparr>)
      | Some (e, left) \<Rightarrow> (Inl e, w\<lparr>files := (files w)(path := left)\<rparr>))"

definition rename :: "fs_env \<Rightarrow> string \<Rightarrow> string \<Rightarrow> world \<Rightarrow> (js_error + unit) \<times> world" where
  "rename env src dst w =
     (case rename_fails env (files w) src dst of
        Some e \<Rightarrow> (Inl e, w)
      | None \<Rightarrow>
          (case files w src of
             None \<Rightarrow> (Inl (LibError ''ENOENT''), w)
           | Some c \<Rightarrow> (Inr (), w\<lparr>files := ((files w)(src := None))(dst \<mapsto> c)\<rparr>)))"

definition loadConfig ::
  "(string \<Rightarrow> js_error + document) \<Rightarrow> string \<Rightarrow> world \<Rightarrow> (js_error + document) \<times> world" where
  "loadConfig parse path w =
     (if existsSync path w then
        (let w1 = logger Info (''Loading config from '' @ path) w
         in (bind_err (readFileSync path w1) parse, w1))
      else (Inl (Error (''Config file not found ('' @ path @ '')'')), w))"

text \<open>The constructor: \<^verbatim>\<open>this.config = this.loadConfig()\<close>.\<close>

definition new_ConfigManager ::
  "(string \<Rightarrow> js_error + document) \<Rightarrow> string \<Rightarrow> world \<Rightarrow> (js_error + ConfigManager) \<times> world" where
  "new_ConfigManager parse path w =
     (let (r, w1) = loadConfig parse path w
      in (bind_err r (\<lambda>d. Inr \<lparr>configPath = path, config = d\<rparr>), w1))"

text \<open>
  \<^verbatim>\<open>saveConfig\<close> is asynchronous. Up to its first \<^verbatim>\<open>await\<close> it runs inside
  the caller: the merge, the temporary path, the serialised document and the start
  of the write (\<open>saveConfig_begin\<close>, which returns the write in flight). The rest
  runs when the file system answers (\<open>saveConfig_finish\<close>). A caller that awaits
  \<^verbatim>\<open>saveConfig\<close> sees both.
\<close>

record pending_save =
  tempPath :: string
  content :: string

definition saveConfig_begin ::
  "(document \<Rightarrow> string) \<Rightarrow> document \<Rightarrow> ConfigManager \<Rightarrow> pending_save \<times> ConfigManager" where
  "saveConfig_begin stringify newConfig m =
     (let m1 = m\<lparr>config := config m ++ newConfig\<rparr>
      in (\<lparr>tempPath = configPath m1 @ ''.tmp'', content = stringify (config m1)\<rparr>, m1))"

definition saveConfig_finish ::
  "fs_env \<Rightarrow> pending_save \<Rightarrow> ConfigManager \<Rightarrow> world \<Rightarrow> (js_error + unit) \<times> world" where
  "saveConfig_finish env p m w =
     (let (r1, w1) = writeFile env (tempPath p) (content p) w;
          (r2, w2) = (case r1 of
                        Inl e \<Rightarrow> (Inl e, w1)
                      | Inr u \<Rightarrow> rename env (tempPath p) (configPath m) w1)
      in case r2 of
           Inr u \<Rightarrow> (Inr (), logger Info (''Config saved atomically to '' @ configPath m) w2)
         | Inl e \<Rightarrow> (Inl e, logger Err (''Failed to save config: '' @ message e) w2))"

definition saveConfig ::
  "fs_env \<Rightarrow> (document \<Rightarrow> string) \<Rightarrow> document \<Rightarrow> ConfigManager \<times> world
     \<Rightarrow> (js_error + unit) \<times> ConfigManager \<times> world" where
  "saveConfig env stringify newConfig st =
     (let (p, m1) = saveConfig_begin stringify newConfig (fst st);
          (r, w1) = saveConfig_finish env p m1 (snd st)
      in (r, m1, w1))"

text \<open>
  What \<^verbatim>\<open>this.config[key]\<close> can yield: a value of the document, or, for a key
  the document does not own, what the object inherits from
  \<^verbatim>\<open>Object.prototype\<close>: that prototype itself through the accessor
  \<^verbatim>\<open>__proto__\<close>, or one of its functions.
\<close>

datatype cache_value =
    Value jsval
  | ObjectPrototype
  | PrototypeFunction string

definition object_prototype_functions :: "string list" where
  "object_prototype_functions =
     [''constructor'', ''hasOwnProperty'', ''isPrototypeOf'', ''propertyIsEnumerable'',
      ''toLocaleString'', ''toString'', ''valueOf'', ''__defineGetter__'', ''__defineSetter__'',
      ''__lookupGetter__'', ''__lookupSetter__'']"

text \<open>\<^verbatim>\<open>get\<close>: an own property first, then the prototype.\<close>

definition get :: "string \<Rightarrow> ConfigManager \<times> world \<Rightarrow> cache_value \<times> ConfigManager \<times> world" where
  "get key st =
     ((case config (fst st) key of
         Some v \<Rightarrow> Value v
       | None \<Rightarrow>
           if key = ''__proto__'' then ObjectPrototype
           else if key \<in> set object_prototype_functions then PrototypeFunction key
           else Value None), st)"

text \<open>
  \<^verbatim>\<open>set\<close>: the assignment \<^verbatim>\<open>this.config[key] = value\<close> writes an own
  property, except for the key \<^verbatim>\<open>__proto__\<close> on a document that does not own
  it: there the setter inherited from \<^verbatim>\<open>Object.prototype\<close> runs and no own
  property is made (the setter changes at most the prototype of the object, which
  the spread in \<^verbatim>\<open>saveConfig\<close> then replaces by a fresh ordinary object).
  \<^verbatim>\<open>set\<close> does not await \<^verbatim>\<open>saveConfig\<close>: it returns when the write has been
  started, and the write in flight is returned with the state.
\<close>

definition set_config ::
  "(document \<Rightarrow> string) \<Rightarrow> string \<Rightarrow> jsval \<Rightarrow> ConfigManager \<times> world
     \<Rightarrow> pending_save \<times> ConfigManager \<times> world" where
  "set_config stringify key v st =
     (let m1 = (if key = ''__proto__'' \<and> config (fst st) key = None then fst st
                else (fst st)\<lparr>config := (config (fst st))(key \<mapsto> v)\<rparr>);
          (p, m2) = saveConfig_begin stringify (config m1) m1
      in (p, m2, snd st))"

section \<open>Concrete inputs\<close>

definition empty_world :: world where
  "empty_world = \<lparr>files = Map.empty, logged = [], calls = []\<rparr>"

definition example_api :: CloudflareAPI where
  "example_api = \<lparr>apiKey = ''key'', email = ''me@example.com'', domainName = ''example.com''\<rparr>"

text \<open>A network that answers the primary IP service with \<open>r1\<close> and every other call with \<open>r2\<close>.\<close>

definition scripted :: "js_error + response \<Rightarrow> js_error + response \<Rightarrow> network" where
  "scripted r1 r2 = (\<lambda>h c. if c = AxiosGet primary_service then r1 else r2)"

text \<open>A network that answers every call with the body \<open>d\<close>.\<close>

definition answers :: "jsval \<Rightarrow> network" where
  "answers d = (\<lambda>h c. Inr \<lparr>data = d\<rparr>)"

text \<open>File systems: one that never fails, one whose writes fail, one whose renames fail.\<close>

definition fs_ok :: fs_env where
  "fs_ok = \<lparr>write_fails = (\<lambda>f p c. None), rename_fails = (\<lambda>f s d. None)\<rparr>"

definition fs_disk_full :: fs_env where
  "fs_disk_full = \<lparr>write_fails = (\<lambda>f p c. Some (LibError ''ENOSPC'', Some (take 2 c))),
                    rename_fails = (\<lambda>f s d. None)\<rparr>"

definition fs_rename_denied :: fs_env where
  "fs_rename_denied = \<lparr>write_fails = (\<lambda>f p c. None),
                        rename_fails = (\<lambda>f s d. Some (LibError ''EACCES''))\<rparr>"

text \<open>
  Stand-ins for the two library functions in the examples: a serialiser that tells
  the documents of the examples apart, and a parser that reads one of them back.
\<close>

definition example_stringify :: "document \<Rightarrow> string" where
  "example_stringify d =
     (if d ''a'' = Some (Some (JNum 1)) then ''a=1;'' else '''')
     @ (if d ''b'' = Some (Some (JNum 2)) then ''b=2;'' else '''')"

definition example_parse :: "string \<Rightarrow> js_error + document" where
  "example_parse c =
     (if c = ''a=1;'' then Inr [''a'' \<mapsto> Some (JNum 1)] else Inl (LibError ''Unexpected token''))"

definition example_manager :: ConfigManager where
  "example_manager = \<lparr>configPath = ''cfg.json'', config = [''a'' \<mapsto> Some (JNum 1)]\<rparr>"

definition example_disk :: world where
  "example_disk = \<lparr>files = [''cfg.json'' \<mapsto> ''a=1;''], logged = [], calls = []\<rparr>"

section \<open>The calls and results of the client, unfolded\<close>

lemma getPublicIP_unfold:
  "getPublicIP net w =
     (case net (calls w) (AxiosGet primary_service) of
        Inr resp \<Rightarrow>
          (call_trim (data resp),
           w\<lparr>logged := logged w @ [(Http, ''GET: Fetching public IP address...'')],
             calls := calls w @ [AxiosGet primary_service]\<rparr>)
      | Inl e \<Rightarrow>
          (bind_err (net (calls w @ [AxiosGet primary_service]) (AxiosGet secondary_service))
             (\<lambda>resp. call_trim (data resp)),
           w\<lparr>logged := logged w @ [(Http, ''GET: Fetching public IP address...'')],
             calls := calls w @ [AxiosGet primary_service, AxiosGet secondary_service]\<rparr>))"
  by (simp add: getPublicIP_def request_def logger_def bind_err_def split: sum.splits)

lemma getZoneId_unfold:
  "getZoneId api net w =
     (bind_err (net (calls w) (ApiGet ''/zones'' [(''name'', domainName api)]))
        (\<lambda>resp. zone_id_of (data resp)),
      w\<lparr>logged := logged w @ [(Http, ''GET: Fetching Zone ID...'')],
        calls := calls w @ [ApiGet ''/zones'' [(''name'', domainName api)]]\<rparr>)"
  by (simp add: getZoneId_def request_def logger_def)

lemma getRecordId_unfold:
  "getRecordId api zoneId subdomain net w =
     (bind_err (net (calls w)
                  (ApiGet (''/zones/'' @ zoneId @ ''/dns_records'')
                     [(''type'', ''A''), (''name'', subdomain @ ''.'' @ domainName api)]))
        (\<lambda>resp. record_id_of (data resp)),
      w\<lparr>logged := logged w @ [(Http, ''GET: Fetching Record ID...'')],
        calls := calls w @ [ApiGet (''/zones/'' @ zoneId @ ''/dns_records'')
                     [(''type'', ''A''), (''name'', subdomain @ ''.'' @ domainName api)]]\<rparr>)"
  by (simp add: getRecordId_def request_def logger_def)

lemma trim_Nil: "trim [] = []"
  by (simp add: trim_def)

lemma spread_self: "(d :: document) ++ d = d"
  by (rule ext) (simp add: map_add_def split: option.splits)

lemma updateDNSRecord_calls:
  "calls (snd (updateDNSRecord api zoneId recordId subdomain publicIP net w))
     = calls w @ [ApiPut (''/zones/'' @ zoneId @ ''/dns_records/'' @ recordId)
                    (JObj [(''type'', JStr ''A''),
                           (''name'', JStr (subdomain @ ''.'' @ domainName api)),
                           (''content'', JStr publicIP),
                           (''ttl'', JNum 1800),
                           (''proxied'', JBool False)])]"
  by (cases "net (calls w) (ApiPut (''/zones/'' @ zoneId @ ''/dns_records/'' @ recordId)
                    (JObj [(''type'', JStr ''A''),
                           (''name'', JStr (subdomain @ ''.'' @ domainName api)),
                           (''content'', JStr publicIP),
                           (''ttl'', JNum 1800),
                           (''proxied'', JBool False)]))")
     (simp_all add: updateDNSRecord_def request_def logger_def Let_def split: sum.splits)

text \<open>An awaited \<^verbatim>\<open>saveConfig\<close>, by the answers of the file system.\<close>

lemma saveConfig_unfold:
  "saveConfig env stringify p (m, w) =
     (let tmp = configPath m @ ''.tmp''; c = stringify (config m ++ p);
          m1 = m\<lparr>config := config m ++ p\<rparr>
      in case write_fails env (files w) tmp c of
           Some (e, left) \<Rightarrow>
             (Inl e, m1, w\<lparr>files := (files w)(tmp := left),
                           logged := logged w @ [(Err, ''Failed to save config: '' @ message e)]\<rparr>)
         | None \<Rightarrow>
             (case rename_fails env ((files w)(tmp \<mapsto> c)) tmp (configPath m) of
                Some e \<Rightarrow>
                  (Inl e, m1, w\<lparr>files := (files w)(tmp \<mapsto> c),
                                logged := logged w @ [(Err, ''Failed to save config: '' @ message e)]\<rparr>)
              | None \<Rightarrow>
                  (Inr (), m1, w\<lparr>files := ((files w)(tmp := None))(configPath m \<mapsto> c),
                                 logged := logged w @ [(Info, ''Config saved atomically to '' @ configPath m)]\<rparr>)))"
  by (simp add: saveConfig_def saveConfig_begin_def saveConfig_finish_def writeFile_def rename_def
        logger_def Let_def split: option.splits prod.splits)

section \<open>getPublicIP\<close>

text \<open>
  C1, as stated: whenever the primary lookup fails in any way, a malformed body
  included, exactly one call goes to the secondary service. It fails where the
  primary call succeeds with a malformed body: with the body \<^verbatim>\<open>null\<close> from the
  primary service, and a secondary service that would answer \<^verbatim>\<open>5.6.7.8\<close>, the
  only call made is the primary one and the TypeError of \<^verbatim>\<open>.trim()\<close> is
  raised.
\<close>

theorem getPublicIP_malformed_primary_counterexample:
  "calls (snd (getPublicIP
       (scripted (Inr \<lparr>data = Some JNull\<rparr>) (Inr \<lparr>data = Some (JStr ''5.6.7.8'')\<rparr>))
       empty_world)) = [AxiosGet primary_service]
   \<and> fst (getPublicIP
       (scripted (Inr \<lparr>data = Some JNull\<rparr>) (Inr \<lparr>data = Some (JStr ''5.6.7.8'')\<rparr>))
       empty_world) = Inl (TypeError ''trim'')"
  by (simp add: getPublicIP_unfold scripted_def empty_world_def)

text \<open>
  C1, amended: if the primary call is rejected with \<open>e\<close> (a network error or a status
  outside 2xx), the calls made are the primary one and then exactly one to the
  secondary service, and a secondary call rejected with \<open>e2\<close> makes
  \<^verbatim>\<open>getPublicIP\<close> fail with \<open>e2\<close> itself. If the primary call returns a
  response, whatever its body, it is the only call and the result is that of
  \<^verbatim>\<open>.trim()\<close> on the body. In every case the only log entry is the one written
  before the first call.
\<close>

theorem getPublicIP_fallback:
  "(net (calls w) (AxiosGet primary_service) = Inl e \<longrightarrow>
      calls (snd (getPublicIP net w))
        = calls w @ [AxiosGet primary_service, AxiosGet secondary_service]
      \<and> (net (calls w @ [AxiosGet primary_service]) (AxiosGet secondary_service) = Inl e2
           \<longrightarrow> fst (getPublicIP net w) = Inl e2))
   \<and> (net (calls w) (AxiosGet primary_service) = Inr resp \<longrightarrow>
      calls (snd (getPublicIP net w)) = calls w @ [AxiosGet primary_service]
      \<and> fst (getPublicIP net w) = call_trim (data resp))
   \<and> logged (snd (getPublicIP net w))
        = logged w @ [(Http, ''GET: Fetching public IP address...'')]"
  by (simp add: getPublicIP_unfold bind_err_def split: sum.splits)

theorem getPublicIP_fallback_witness:
  "calls (snd (getPublicIP
       (scripted (Inl (LibError ''Network Error'')) (Inl (LibError ''timeout''))) empty_world))
     = [AxiosGet primary_service, AxiosGet secondary_service]
   \<and> fst (getPublicIP
       (scripted (Inl (LibError ''Network Error'')) (Inl (LibError ''timeout''))) empty_world)
     = Inl (LibError ''timeout'')
   \<and> calls (snd (getPublicIP
       (scripted (Inr \<lparr>data = Some (JStr ''1.2.3.4'')\<rparr>) (Inl (LibError ''timeout''))) empty_world))
     = [AxiosGet primary_service]"
  using getPublicIP_fallback [where net = "scripted (Inl (LibError ''Network Error''))
                                              (Inl (LibError ''timeout''))"
          and w = empty_world and e = "LibError ''Network Error''" and ?e2.0 = "LibError ''timeout''"]
        getPublicIP_fallback [where net = "scripted (Inr \<lparr>data = Some (JStr ''1.2.3.4'')\<rparr>)
                                              (Inl (LibError ''timeout''))"
          and w = empty_world and resp = "\<lparr>data = Some (JStr ''1.2.3.4'')\<rparr>"]
  by (simp add: scripted_def empty_world_def primary_service_def secondary_service_def)

text \<open>
  C2, as stated: an empty body is treated as an error. It is not: a response whose
  body is the empty string makes \<^verbatim>\<open>getPublicIP\<close> return the empty string.
\<close>

theorem getPublicIP_empty_body_counterexample:
  "fst (getPublicIP (answers (Some (JStr ''''))) empty_world) = Inr ''''"
  by (simp add: getPublicIP_unfold answers_def empty_world_def trim_Nil)

text \<open>
  C2, amended: when the call that is answered (the primary one, or the secondary one
  after a rejected primary call) succeeds with a body that is \<^verbatim>\<open>undefined\<close> or
  \<^verbatim>\<open>null\<close>, \<^verbatim>\<open>getPublicIP\<close> fails with a TypeError; a string body \<open>s\<close> is
  returned trimmed, so the empty string is returned as the empty string.
\<close>

theorem getPublicIP_body:
  assumes "net (calls w) (AxiosGet primary_service) = Inr resp
           \<or> (net (calls w) (AxiosGet primary_service) = Inl e
              \<and> net (calls w @ [AxiosGet primary_service]) (AxiosGet secondary_service) = Inr resp)"
  shows "(data resp = None \<or> data resp = Some JNull
            \<longrightarrow> fst (getPublicIP net w) = Inl (TypeError ''trim''))
         \<and> (data resp = Some (JStr s) \<longrightarrow> fst (getPublicIP net w) = Inr (trim s))
         \<and> (data resp = Some (JStr []) \<longrightarrow> fst (getPublicIP net w) = Inr [])"
  using assms by (auto simp add: getPublicIP_unfold bind_err_def trim_Nil)

theorem getPublicIP_body_witness:
  "fst (getPublicIP (scripted (Inl (LibError ''Network Error'')) (Inr \<lparr>data = None\<rparr>)) empty_world)
     = Inl (TypeError ''trim'')
   \<and> fst (getPublicIP (scripted (Inr \<lparr>data = Some JNull\<rparr>) (Inl (LibError ''unused''))) empty_world)
     = Inl (TypeError ''trim'')
   \<and> fst (getPublicIP (scripted (Inr \<lparr>data = Some (JStr ''1.2.3.4'')\<rparr>) (Inl (LibError ''unused'')))
           empty_world)
     = Inr ''1.2.3.4''"
  using getPublicIP_body [where net = "scripted (Inl (LibError ''Network Error'')) (Inr \<lparr>data = None\<rparr>)"
          and w = empty_world and resp = "\<lparr>data = None\<rparr>" and e = "LibError ''Network Error''"]
        getPublicIP_body [where net = "scripted (Inr \<lparr>data = Some JNull\<rparr>) (Inl (LibError ''unused''))"
          and w = empty_world and resp = "\<lparr>data = Some JNull\<rparr>"]
        getPublicIP_body [where net = "scripted (Inr \<lparr>data = Some (JStr ''1.2.3.4'')\<rparr>)
                                          (Inl (LibError ''unused''))"
          and w = empty_world and resp = "\<lparr>data = Some (JStr ''1.2.3.4'')\<rparr>" and s = "''1.2.3.4''"]
  by (simp add: scripted_def empty_world_def primary_service_def secondary_service_def
        trim_def js_whitespace_def)

section \<open>getZoneId and getRecordId\<close>

text \<open>
  C3, as stated: on success with at least one match the first match's id is
  returned. It fails when that id is falsy: for a first match whose id is the empty
  string, \<^verbatim>\<open>result[0]?.id || null\<close> is \<^verbatim>\<open>null\<close>, not the id.
\<close>

theorem getRecordId_falsy_id_counterexample:
  "fst (getRecordId example_api ''z1'' ''sub''
         (answers (Some (JObj [(''success'', JBool True),
                               (''result'', JArr [JObj [(''id'', JStr '''')]])])))
         empty_world) = Inr (Some JNull)"
  by (simp add: getRecordId_unfold answers_def empty_world_def bind_err_def record_id_of_def)

text \<open>
  C3, amended: for every response object to the record query, if \<^verbatim>\<open>success\<close> is
  falsy \<^verbatim>\<open>getRecordId\<close> raises the error with message "Failed to fetch Record ID";
  if \<^verbatim>\<open>success\<close> is truthy and the result list is empty it returns \<^verbatim>\<open>null\<close>
  and does not raise; if \<^verbatim>\<open>success\<close> is truthy and the result list starts with
  an object, it returns that object's id when the id is truthy (a non-empty string,
  say) and \<^verbatim>\<open>null\<close> when the id is missing or falsy.
\<close>

theorem getRecordId_result:
  assumes "net (calls w)
             (ApiGet (''/zones/'' @ zoneId @ ''/dns_records'')
                [(''type'', ''A''), (''name'', subdomain @ ''.'' @ domainName api)]) = Inr resp"
      and "data resp = Some (JObj kvs)"
  shows "(\<not> truthy (map_of kvs ''success'')
            \<longrightarrow> fst (getRecordId api zoneId subdomain net w)
                  = Inl (Error ''Failed to fetch Record ID''))
         \<and> (truthy (map_of kvs ''success'') \<and> map_of kvs ''result'' = Some (JArr [])
            \<longrightarrow> fst (getRecordId api zoneId subdomain net w) = Inr (Some JNull))
         \<and> (truthy (map_of kvs ''success'') \<and> map_of kvs ''result'' = Some (JArr (JObj r # rest))
            \<longrightarrow> fst (getRecordId api zoneId subdomain net w)
                  = Inr (if truthy (map_of r ''id'') then map_of r ''id'' else Some JNull))"
  using assms by (simp add: getRecordId_unfold bind_err_def record_id_of_def)

theorem getRecordId_result_witness:
  "fst (getRecordId example_api ''z1'' ''sub''
         (answers (Some (JObj [(''success'', JBool False)]))) empty_world)
     = Inl (Error ''Failed to fetch Record ID'')
   \<and> fst (getRecordId example_api ''z1'' ''sub''
         (answers (Some (JObj [(''success'', JBool True), (''result'', JArr [])]))) empty_world)
     = Inr (Some JNull)
   \<and> fst (getRecordId example_api ''z1'' ''sub''
         (answers (Some (JObj [(''success'', JBool True),
                               (''result'', JArr [JObj [(''id'', JStr ''r1'')]])]))) empty_world)
     = Inr (Some (JStr ''r1''))"
  using getRecordId_result [where net = "answers (Some (JObj [(''success'', JBool False)]))"
          and w = empty_world and zoneId = "''z1''" and subdomain = "''sub''" and api = example_api
          and resp = "\<lparr>data = Some (JObj [(''success'', JBool False)])\<rparr>"
          and kvs = "[(''success'', JBool False)]"]
        getRecordId_result [where net = "answers (Some (JObj [(''success'', JBool True),
                                                              (''result'', JArr [])]))"
          and w = empty_world and zoneId = "''z1''" and subdomain = "''sub''" and api = example_api
          and resp = "\<lparr>data = Some (JObj [(''success'', JBool True), (''result'', JArr [])])\<rparr>"
          and kvs = "[(''success'', JBool True), (''result'', JArr [])]"]
        getRecordId_result [where net = "answers (Some (JObj [(''success'', JBool True),
                                           (''result'', JArr [JObj [(''id'', JStr ''r1'')]])]))"
          and w = empty_world and zoneId = "''z1''" and subdomain = "''sub''" and api = example_api
          and resp = "\<lparr>data = Some (JObj [(''success'', JBool True),
                                           (''result'', JArr [JObj [(''id'', JStr ''r1'')]])])\<rparr>"
          and kvs = "[(''success'', JBool True), (''result'', JArr [JObj [(''id'', JStr ''r1'')]])]"
          and r = "[(''id'', JStr ''r1'')]" and rest = "[]"]
  by (simp add: answers_def)

text \<open>
  C4, as stated: whenever the provider does not report failure, the identifier of
  the first zone is returned. It fails on a successful response with no zone:
  \<^verbatim>\<open>result[0].id\<close> on the empty list raises a TypeError.
\<close>

theorem getZoneId_no_zone_counterexample:
  "fst (getZoneId example_api
         (answers (Some (JObj [(''success'', JBool True), (''result'', JArr [])])))
         empty_world) = Inl (TypeError ''id'')"
  by (simp add: getZoneId_unfold answers_def empty_world_def bind_err_def zone_id_of_def)

text \<open>
  C4, amended: for every response object to the zone query, if \<^verbatim>\<open>success\<close> is
  falsy \<^verbatim>\<open>getZoneId\<close> raises the error with message "Failed to fetch Zone ID"; if
  \<^verbatim>\<open>success\<close> is truthy and the result list starts with a zone object, it
  returns the id of that first zone, whatever the rest of the list holds.
\<close>

theorem getZoneId_result:
  assumes "net (calls w) (ApiGet ''/zones'' [(''name'', domainName api)]) = Inr resp"
      and "data resp = Some (JObj kvs)"
  shows "(\<not> truthy (map_of kvs ''success'')
            \<longrightarrow> fst (getZoneId api net w) = Inl (Error ''Failed to fetch Zone ID''))
         \<and> (truthy (map_of kvs ''success'') \<and> map_of kvs ''result'' = Some (JArr (JObj z # rest))
            \<longrightarrow> fst (getZoneId api net w) = Inr (map_of z ''id''))"
  using assms by (simp add: getZoneId_unfold bind_err_def zone_id_of_def)

theorem getZoneId_result_witness:
  "fst (getZoneId example_api (answers (Some (JObj [(''success'', JBool False)]))) empty_world)
     = Inl (Error ''Failed to fetch Zone ID'')
   \<and> fst (getZoneId example_api
         (answers (Some (JObj [(''success'', JBool True),
                               (''result'', JArr [JObj [(''id'', JStr ''z1'')],
                                                  JObj [(''id'', JStr ''z2'')]])]))) empty_world)
     = Inr (Some (JStr ''z1''))"
  using getZoneId_result [where net = "answers (Some (JObj [(''success'', JBool False)]))"
          and w = empty_world and api = example_api
          and resp = "\<lparr>data = Some (JObj [(''success'', JBool False)])\<rparr>"
          and kvs = "[(''success'', JBool False)]"]
        getZoneId_result [where net = "answers (Some (JObj [(''success'', JBool True),
                                         (''result'', JArr [JObj [(''id'', JStr ''z1'')],
                                                            JObj [(''id'', JStr ''z2'')]])]))"
          and w = empty_world and api = example_api
          and resp = "\<lparr>data = Some (JObj [(''success'', JBool True),
                                         (''result'', JArr [JObj [(''id'', JStr ''z1'')],
                                                            JObj [(''id'', JStr ''z2'')]])])\<rparr>"
          and kvs = "[(''success'', JBool True),
                      (''result'', JArr [JObj [(''id'', JStr ''z1'')], JObj [(''id'', JStr ''z2'')]])]"
          and z = "[(''id'', JStr ''z1'')]" and rest = "[JObj [(''id'', JStr ''z2'')]]"]
  by (simp add: answers_def)

text \<open>
  C10: for every response that reports success (a truthy \<^verbatim>\<open>success\<close>) and
  carries an empty result list, \<^verbatim>\<open>getZoneId\<close> returns neither an identifier nor
  \<^verbatim>\<open>null\<close>: the unguarded read of \<^verbatim>\<open>id\<close> on the missing first element
  raises a TypeError. \<^verbatim>\<open>getRecordId\<close>, given the same response, guards the read
  and returns \<^verbatim>\<open>null\<close>.
\<close>

theorem getZoneId_empty_result:
  assumes "net (calls w) (ApiGet ''/zones'' [(''name'', domainName api)]) = Inr resp"
      and "net (calls w)
             (ApiGet (''/zones/'' @ zoneId @ ''/dns_records'')
                [(''type'', ''A''), (''name'', subdomain @ ''.'' @ domainName api)]) = Inr resp"
      and "data resp = Some (JObj kvs)"
      and "truthy (map_of kvs ''success'')"
      and "map_of kvs ''result'' = Some (JArr [])"
  shows "fst (getZoneId api net w) = Inl (TypeError ''id'')
         \<and> fst (getRecordId api zoneId subdomain net w) = Inr (Some JNull)"
  using assms
  by (simp add: getZoneId_unfold getRecordId_unfold bind_err_def zone_id_of_def record_id_of_def)

theorem getZoneId_empty_result_witness:
  "fst (getZoneId example_api
         (answers (Some (JObj [(''result'', JArr []), (''success'', JBool True)]))) empty_world)
     = Inl (TypeError ''id'')
   \<and> fst (getRecordId example_api ''z9'' ''www''
         (answers (Some (JObj [(''result'', JArr []), (''success'', JBool True)]))) empty_world)
     = Inr (Some JNull)"
  using getZoneId_empty_result [where net = "answers (Some (JObj [(''result'', JArr []),
                                                                  (''success'', JBool True)]))"
          and w = empty_world and api = example_api and zoneId = "''z9''" and subdomain = "''www''"
          and resp = "\<lparr>data = Some (JObj [(''result'', JArr []), (''success'', JBool True)])\<rparr>"
          and kvs = "[(''result'', JArr []), (''success'', JBool True)]"]
  by (simp add: answers_def)

section \<open>updateDNSRecord\<close>

text \<open>
  C5: every call \<^verbatim>\<open>updateDNSRecord(zoneId, recordId, subdomain, ip)\<close> sends one
  PUT to the record's path whose body is exactly type "A", name
  \<^verbatim>\<open>{subdomain}.{domainName}\<close>, content \<open>ip\<close>, ttl 1800, proxied false. The
  request is made from any state and for any arguments: nothing is compared with
  an earlier address. When the provider's answer reports success, the answer's
  payload is returned as it came.
\<close>

theorem updateDNSRecord_request:
  "calls (snd (updateDNSRecord api zoneId recordId subdomain publicIP net w))
     = calls w @ [ApiPut (''/zones/'' @ zoneId @ ''/dns_records/'' @ recordId)
                    (JObj [(''type'', JStr ''A''),
                           (''name'', JStr (subdomain @ ''.'' @ domainName api)),
                           (''content'', JStr publicIP),
                           (''ttl'', JNum 1800),
                           (''proxied'', JBool False)])]
   \<and> (net (calls w)
          (ApiPut (''/zones/'' @ zoneId @ ''/dns_records/'' @ recordId)
             (JObj [(''type'', JStr ''A''),
                    (''name'', JStr (subdomain @ ''.'' @ domainName api)),
                    (''content'', JStr publicIP),
                    (''ttl'', JNum 1800),
                    (''proxied'', JBool False)])) = Inr resp
        \<and> get_prop (data resp) ''success'' = Inr success \<and> truthy success
       \<longrightarrow> fst (updateDNSRecord api zoneId recordId subdomain publicIP net w) = Inr (data resp))"
  by (simp add: updateDNSRecord_calls) (simp add: updateDNSRecord_def request_def logger_def Let_def)

theorem updateDNSRecord_request_witness:
  "calls (snd (updateDNSRecord example_api ''z1'' ''r1'' ''sub'' ''1.2.3.4''
                 (answers (Some (JObj [(''success'', JBool True)]))) empty_world))
     = [ApiPut ''/zones/z1/dns_records/r1''
          (JObj [(''type'', JStr ''A''), (''name'', JStr ''sub.example.com''),
                 (''content'', JStr ''1.2.3.4''), (''ttl'', JNum 1800), (''proxied'', JBool False)])]
   \<and> fst (updateDNSRecord example_api ''z1'' ''r1'' ''sub'' ''1.2.3.4''
                 (answers (Some (JObj [(''success'', JBool True)]))) empty_world)
     = Inr (Some (JObj [(''success'', JBool True)]))"
  using updateDNSRecord_request [where api = example_api and zoneId = "''z1''" and recordId = "''r1''"
          and subdomain = "''sub''" and publicIP = "''1.2.3.4''"
          and net = "answers (Some (JObj [(''success'', JBool True)]))" and w = empty_world
          and resp = "\<lparr>data = Some (JObj [(''success'', JBool True)])\<rparr>"
          and success = "Some (JBool True)"]
  by (simp add: answers_def example_api_def empty_world_def)

section \<open>The persistent cache\<close>

text \<open>
  C6: for every in-memory document \<open>config m\<close> and partial map \<open>p\<close>, after
  \<^verbatim>\<open>saveConfig(p)\<close> the document in memory holds, at every key, \<open>p\<close>'s entry
  where \<open>p\<close> has one and the old entry otherwise; when the write and the rename
  succeed, the file at the configured path holds the serialisation of that union
  and no temporary file is left. With the document a:1 and the partial map b:2
  the persisted document has both entries.
\<close>

theorem saveConfig_merge:
  "(\<forall>k. config (fst (snd (saveConfig env stringify p (m, w)))) k
          = (case p k of Some v \<Rightarrow> Some v | None \<Rightarrow> config m k))
   \<and> (write_fails env (files w) (configPath m @ ''.tmp'') (stringify (config m ++ p)) = None
       \<and> rename_fails env ((files w)(configPath m @ ''.tmp'' \<mapsto> stringify (config m ++ p)))
            (configPath m @ ''.tmp'') (configPath m) = None
      \<longrightarrow> fst (saveConfig env stringify p (m, w)) = Inr ()
          \<and> files (snd (snd (saveConfig env stringify p (m, w)))) (configPath m)
              = Some (stringify (config m ++ p))
          \<and> files (snd (snd (saveConfig env stringify p (m, w)))) (configPath m @ ''.tmp'') = None)"
  by (simp add: saveConfig_unfold Let_def map_add_def split: option.splits)

theorem saveConfig_merge_witness:
  "config (fst (snd (saveConfig fs_ok example_stringify [''b'' \<mapsto> Some (JNum 2)]
                       (example_manager, example_disk)))) ''a'' = Some (Some (JNum 1))
   \<and> config (fst (snd (saveConfig fs_ok example_stringify [''b'' \<mapsto> Some (JNum 2)]
                       (example_manager, example_disk)))) ''b'' = Some (Some (JNum 2))
   \<and> fst (saveConfig fs_ok example_stringify [''b'' \<mapsto> Some (JNum 2)] (example_manager, example_disk))
       = Inr ()
   \<and> files (snd (snd (saveConfig fs_ok example_stringify [''b'' \<mapsto> Some (JNum 2)]
                        (example_manager, example_disk)))) ''cfg.json'' = Some ''a=1;b=2;''"
  using saveConfig_merge [where env = fs_ok and stringify = example_stringify
          and p = "[''b'' \<mapsto> Some (JNum 2)]" and m = example_manager and w = example_disk]
  by (simp add: fs_ok_def example_stringify_def example_manager_def example_disk_def)

text \<open>
  C7: for every configured path with no file behind it, constructing the cache
  raises the error "Config file not found (path)", whose message contains the
  path, and leaves the world as it was: no file is created. With a file at the
  path, the constructor itself reads and parses it, and the document of the new
  cache is the parsed one.
\<close>

theorem new_ConfigManager_load:
  "(files w path = None \<longrightarrow>
      new_ConfigManager parse path w = (Inl (Error (''Config file not found ('' @ path @ '')'')), w)
      \<and> (\<exists>e pre post. fst (new_ConfigManager parse path w) = Inl e
                        \<and> message e = pre @ path @ post))
   \<and> (files w path = Some c \<longrightarrow>
      fst (new_ConfigManager parse path w)
        = bind_err (parse c) (\<lambda>d. Inr \<lparr>configPath = path, config = d\<rparr>)
      \<and> files (snd (new_ConfigManager parse path w)) = files w)"
proof -
  have "''Config file not found ('' @ path @ '')'' = ''Config file not found ('' @ path @ '')''"
    by simp
  then have "\<exists>pre post. ''Config file not found ('' @ path @ '')'' = pre @ path @ post"
    by blast
  then show ?thesis
    by (auto simp add: new_ConfigManager_def loadConfig_def existsSync_def readFileSync_def
          logger_def bind_err_def Let_def split: sum.splits)
qed

theorem new_ConfigManager_load_witness:
  "new_ConfigManager example_parse ''cfg.json'' empty_world
     = (Inl (Error ''Config file not found (cfg.json)''), empty_world)
   \<and> fst (new_ConfigManager example_parse ''cfg.json'' example_disk) = Inr example_manager"
  using new_ConfigManager_load [where w = empty_world and path = "''cfg.json''"
          and parse = example_parse]
        new_ConfigManager_load [where w = example_disk and path = "''cfg.json''"
          and parse = example_parse and c = "''a=1;''"]
  by (simp add: empty_world_def example_disk_def example_parse_def example_manager_def bind_err_def)

text \<open>
  C8: for every \<^verbatim>\<open>saveConfig(p)\<close> whose write fails with \<open>e\<close>, or whose write
  succeeds and whose rename fails with \<open>e\<close>, the caller receives \<open>e\<close>, the error
  is logged first, the document in memory is already the merged one, and the file
  at the configured path is what it was before the call. So if the file agreed
  with memory before and the merge changed the serialised document, file and
  memory now differ.
\<close>

theorem saveConfig_failure:
  assumes "write_fails env (files w) (configPath m @ ''.tmp'') (stringify (config m ++ p))
             = Some (e, left)
           \<or> (write_fails env (files w) (configPath m @ ''.tmp'') (stringify (config m ++ p)) = None
              \<and> rename_fails env ((files w)(configPath m @ ''.tmp'' \<mapsto> stringify (config m ++ p)))
                   (configPath m @ ''.tmp'') (configPath m) = Some e)"
  shows "fst (saveConfig env stringify p (m, w)) = Inl e
         \<and> config (fst (snd (saveConfig env stringify p (m, w)))) = config m ++ p
         \<and> files (snd (snd (saveConfig env stringify p (m, w)))) (configPath m)
             = files w (configPath m)
         \<and> logged (snd (snd (saveConfig env stringify p (m, w))))
             = logged w @ [(Err, ''Failed to save config: '' @ message e)]
         \<and> (files w (configPath m) = Some (stringify (config m))
              \<and> stringify (config m ++ p) \<noteq> stringify (config m)
            \<longrightarrow> files (snd (snd (saveConfig env stringify p (m, w)))) (configPath m)
                  \<noteq> Some (stringify (config (fst (snd (saveConfig env stringify p (m, w)))))))"
  using assms by (auto simp add: saveConfig_unfold Let_def)

theorem saveConfig_failure_witness:
  "fst (saveConfig fs_disk_full example_stringify [''b'' \<mapsto> Some (JNum 2)] (example_manager, example_disk))
     = Inl (LibError ''ENOSPC'')
   \<and> config (fst (snd (saveConfig fs_disk_full example_stringify [''b'' \<mapsto> Some (JNum 2)]
                         (example_manager, example_disk)))) ''b'' = Some (Some (JNum 2))
   \<and> files (snd (snd (saveConfig fs_disk_full example_stringify [''b'' \<mapsto> Some (JNum 2)]
                        (example_manager, example_disk)))) ''cfg.json'' = Some ''a=1;''
   \<and> fst (saveConfig fs_rename_denied example_stringify [''b'' \<mapsto> Some (JNum 2)]
            (example_manager, example_disk))
     = Inl (LibError ''EACCES'')
   \<and> files (snd (snd (saveConfig fs_rename_denied example_stringify [''b'' \<mapsto> Some (JNum 2)]
                        (example_manager, example_disk)))) ''cfg.json'' = Some ''a=1;''
   \<and> logged (snd (snd (saveConfig fs_rename_denied example_stringify [''b'' \<mapsto> Some (JNum 2)]
                        (example_manager, example_disk))))
     = [(Err, ''Failed to save config: EACCES'')]"
  using saveConfig_failure [where env = fs_disk_full and stringify = example_stringify
          and p = "[''b'' \<mapsto> Some (JNum 2)]" and m = example_manager and w = example_disk
          and e = "LibError ''ENOSPC''" and left = "Some ''a=''"]
        saveConfig_failure [where env = fs_rename_denied and stringify = example_stringify
          and p = "[''b'' \<mapsto> Some (JNum 2)]" and m = example_manager and w = example_disk
          and e = "LibError ''EACCES''"]
  by (simp add: fs_disk_full_def fs_rename_denied_def example_stringify_def example_manager_def
        example_disk_def)

text \<open>
  C9, as stated: for every key, \<^verbatim>\<open>get\<close> after \<^verbatim>\<open>set\<close> returns the value set.
  It fails at the key \<^verbatim>\<open>__proto__\<close> on a document that does not own it: after
  \<^verbatim>\<open>set("__proto__", "z1")\<close>, \<^verbatim>\<open>get("__proto__")\<close> is
  \<^verbatim>\<open>Object.prototype\<close>, not "z1".
\<close>

theorem set_then_get_proto_counterexample:
  "fst (get ''__proto__''
          (snd (set_config example_stringify ''__proto__'' (Some (JStr ''z1''))
                  (example_manager, example_disk)))) = ObjectPrototype
   \<and> fst (get ''__proto__''
          (snd (set_config example_stringify ''__proto__'' (Some (JStr ''z1''))
                  (example_manager, example_disk)))) \<noteq> Value (Some (JStr ''z1''))"
  by (simp add: get_def set_config_def saveConfig_begin_def example_manager_def spread_self Let_def)

text \<open>
  C9, amended: for every value \<open>v\<close> (\<^verbatim>\<open>undefined\<close> included) and every key that
  is not \<^verbatim>\<open>__proto__\<close> or that the document already owns, \<^verbatim>\<open>get(key)\<close> right
  after \<^verbatim>\<open>set(key, v)\<close> returns \<open>v\<close>, and still returns \<open>v\<close> once the write
  in flight has finished, whatever the file system answered. For the key
  \<^verbatim>\<open>__proto__\<close> on a document that does not own it, \<^verbatim>\<open>set\<close> leaves the
  document as it was and \<^verbatim>\<open>get\<close> returns \<^verbatim>\<open>Object.prototype\<close>. For every key,
  \<^verbatim>\<open>set\<close> returns with the write still in flight and the files untouched, and
  \<^verbatim>\<open>get\<close> leaves the document and the files as they are.
\<close>

theorem set_then_get:
  "(key \<noteq> ''__proto__'' \<or> config (fst st) key \<noteq> None \<longrightarrow>
      fst (get key (snd (set_config stringify key v st))) = Value v
      \<and> fst (get key (fst (snd (set_config stringify key v st)),
                      snd (saveConfig_finish env (fst (set_config stringify key v st))
                             (fst (snd (set_config stringify key v st))) (snd st)))) = Value v)
   \<and> (key = ''__proto__'' \<and> config (fst st) key = None \<longrightarrow>
      fst (get key (snd (set_config stringify key v st))) = ObjectPrototype
      \<and> config (fst (snd (set_config stringify key v st))) = config (fst st))
   \<and> snd (snd (set_config stringify key v st)) = snd st
   \<and> snd (get key st) = st"
  by (auto simp add: get_def set_config_def saveConfig_begin_def spread_self Let_def)

theorem set_then_get_witness:
  "fst (get ''zoneId''
          (snd (set_config example_stringify ''zoneId'' (Some (JStr ''z1''))
                  (example_manager, example_disk)))) = Value (Some (JStr ''z1''))
   \<and> fst (get ''constructor''
          (snd (set_config example_stringify ''constructor'' None
                  (example_manager, example_disk)))) = Value None
   \<and> config (fst (snd (set_config example_stringify ''__proto__'' (Some JNull)
                         (example_manager, example_disk)))) = config example_manager"
  using set_then_get [where key = "''zoneId''" and st = "(example_manager, example_disk)"
          and stringify = example_stringify and v = "Some (JStr ''z1'')" and env = fs_ok]
        set_then_get [where key = "''constructor''" and st = "(example_manager, example_disk)"
          and stringify = example_stringify and v = None and env = fs_ok]
        set_then_get [where key = "''__proto__''" and st = "(example_manager, example_disk)"
          and stringify = example_stringify and v = "Some JNull" and env = fs_ok]
  by (simp add: example_manager_def)

end
